theory Spec2Isabelle
  imports Main
begin

section \<open>Python values, exceptions and callables\<close>

text \<open>
  The module \<^verbatim>\<open>auto_parallel/hepler.py\<close> wraps a user model, a loss function and
  metrics into a \<^verbatim>\<open>ProxyLayer\<close>, and lets a \<^verbatim>\<open>ProgramHelper\<close> turn the layer's
  \<^verbatim>\<open>_train\<close>, \<^verbatim>\<open>_eval\<close> or \<^verbatim>\<open>_predict\<close> method into a static function
  through the framework primitive \<^verbatim>\<open>to_static\<close>.

  Python values that the module inspects are \<^verbatim>\<open>None\<close>, lists and opaque objects
  (tensors, variables). A mode is \<^verbatim>\<open>None\<close> or a \<^verbatim>\<open>str\<close>, hence a
  \<open>string option\<close>. A method returns a value or raises; a raise keeps the assignments
  made before it, so every stateful method returns its outcome together with the
  state it leaves behind.
\<close>

datatype 'v pyval = PNone | PVar 'v | PList "'v pyval list"

datatype 'e error =
    AssertionError "string option"
  | AttributeError string
  | TypeError
  | Raised 'e

text \<open>
  A callable supplied by the user (the inner layer, the loss function, a metric's
  \<^verbatim>\<open>compute\<close>) receives its positional arguments \<^verbatim>\<open>*inputs\<close> as a list and returns
  a value or raises. For a metric the result is the list of items that
  \<^verbatim>\<open>outs.extend\<close> appends.
\<close>

type_synonym ('v, 'e) callable = "'v pyval list \<Rightarrow> 'e error + 'v pyval"

record ('v, 'e) Metric =
  compute :: "'v pyval list \<Rightarrow> 'e error + 'v pyval list"

text \<open>
  A function-valued attribute of the proxy layer is either a method of the class,
  looked up by name, or a static function object made by \<^verbatim>\<open>to_static\<close>.
\<close>

datatype 'sf func = BoundMethod string | StaticFunction 'sf

section \<open>ProxyLayer\<close>

text \<open>The five lists of generated program variables.\<close>

record 'v ProgramVars =
  input_vars :: "'v pyval"
  label_vars :: "'v pyval"
  output_vars :: "'v pyval"
  loss_vars :: "'v pyval"
  metric_vars :: "'v pyval"

text \<open>
  The remaining fields of \<^verbatim>\<open>ProxyLayer\<close>. The field \<open>attrs\<close> is the part of the
  instance dictionary written by \<^verbatim>\<open>setattr\<close>; an entry shadows the class method
  of the same name.
\<close>

record ('v, 'e, 'sf) ProxyLayer = "'v ProgramVars" +
  inner_layer :: "('v, 'e) callable"
  loss_func :: "('v, 'e) callable option"
  metrics :: "('v, 'e) Metric list"
  mode :: "string option"
  attrs :: "string \<rightharpoonup> 'sf func"

definition ProxyLayer_init ::
  "('v, 'e) callable \<Rightarrow> ('v, 'e) callable option \<Rightarrow> ('v, 'e) Metric list \<Rightarrow>
   ('v, 'e, 'sf) ProxyLayer" where
  "ProxyLayer_init layer loss_func' metrics' =
     \<lparr>input_vars = PList [], label_vars = PList [], output_vars = PList [],
      loss_vars = PList [], metric_vars = PList [],
      inner_layer = layer, loss_func = loss_func', metrics = metrics',
      mode = None, attrs = Map.empty\<rparr>"

text \<open>
  \<^verbatim>\<open>_prepare\<close> concatenates \<^verbatim>\<open>to_list(outputs) + to_list(labels)\<close>. The helper
  \<^verbatim>\<open>to_list\<close> comes from \<^verbatim>\<open>.utils\<close> and is a parameter here: it returns a
  Python list or \<^verbatim>\<open>None\<close>. Adding \<^verbatim>\<open>None\<close> to a list raises \<^verbatim>\<open>TypeError\<close>.
\<close>

definition ProxyLayer_prepare ::
  "('v pyval \<Rightarrow> 'v pyval list option) \<Rightarrow> 'v pyval \<Rightarrow> 'v pyval \<Rightarrow> 'e error + 'v pyval list" where
  "ProxyLayer_prepare to_list outputs labels =
     (case to_list outputs of
        None \<Rightarrow> Inl TypeError
      | Some xs \<Rightarrow> (case to_list labels of
            None \<Rightarrow> Inl TypeError
          | Some ys \<Rightarrow> Inr (xs @ ys)))"

definition call_loss ::
  "('v, 'e, 'sf) ProxyLayer \<Rightarrow> 'v pyval list \<Rightarrow> 'e error + 'v pyval" where
  "call_loss self inputs =
     (case loss_func self of
        None \<Rightarrow> Inr (PList [])
      | Some f \<Rightarrow> f inputs)"

text \<open>The loop of \<^verbatim>\<open>call_metrics\<close>, with the accumulator \<^verbatim>\<open>outs\<close>.\<close>

fun call_metrics_loop ::
  "('v, 'e) Metric list \<Rightarrow> 'v pyval list \<Rightarrow> 'v pyval list \<Rightarrow> 'e error + 'v pyval list" where
  "call_metrics_loop [] inputs outs = Inr outs"
| "call_metrics_loop (metric # rest) inputs outs =
     (case compute metric inputs of
        Inl e \<Rightarrow> Inl e
      | Inr items \<Rightarrow> call_metrics_loop rest inputs (outs @ items))"

definition call_metrics ::
  "('v, 'e, 'sf) ProxyLayer \<Rightarrow> 'v pyval list \<Rightarrow> 'e error + 'v pyval" where
  "call_metrics self inputs =
     (case call_metrics_loop (metrics self) inputs [] of
        Inl e \<Rightarrow> Inl e
      | Inr outs \<Rightarrow> Inr (PList outs))"

definition ProxyLayer_train ::
  "('v pyval \<Rightarrow> 'v pyval list option) \<Rightarrow> ('v, 'e, 'sf) ProxyLayer \<Rightarrow> 'v pyval list \<Rightarrow> 'v pyval \<Rightarrow>
   ('e error + unit) \<times> ('v, 'e, 'sf) ProxyLayer" where
  "ProxyLayer_train to_list self inputs labels =
     (let s1 = self\<lparr>input_vars := PList inputs, label_vars := labels\<rparr> in
      case inner_layer s1 inputs of
        Inl e \<Rightarrow> (Inl e, s1)
      | Inr out \<Rightarrow>
          (let s2 = s1\<lparr>output_vars := out\<rparr> in
           (case ProxyLayer_prepare to_list (output_vars s2) labels of
              Inl e \<Rightarrow> (Inl e, s2)
            | Inr new_inputs \<Rightarrow>
                (case call_loss s2 new_inputs of
                   Inl e \<Rightarrow> (Inl e, s2)
                 | Inr loss \<Rightarrow>
                     (let s3 = s2\<lparr>loss_vars := loss\<rparr> in
                      (case call_metrics s3 new_inputs of
                         Inl e \<Rightarrow> (Inl e, s3)
                       | Inr ms \<Rightarrow> (Inr (), s3\<lparr>metric_vars := ms\<rparr>)))))))"

definition ProxyLayer_eval ::
  "('v pyval \<Rightarrow> 'v pyval list option) \<Rightarrow> ('v, 'e, 'sf) ProxyLayer \<Rightarrow> 'v pyval list \<Rightarrow> 'v pyval \<Rightarrow>
   ('e error + unit) \<times> ('v, 'e, 'sf) ProxyLayer" where
  "ProxyLayer_eval to_list self inputs labels =
     (let s1 = self\<lparr>input_vars := PList inputs, label_vars := labels\<rparr> in
      case inner_layer s1 inputs of
        Inl e \<Rightarrow> (Inl e, s1)
      | Inr out \<Rightarrow>
          (let s2 = s1\<lparr>output_vars := out\<rparr> in
           (case ProxyLayer_prepare to_list (output_vars s2) labels of
              Inl e \<Rightarrow> (Inl e, s2)
            | Inr new_inputs \<Rightarrow>
                (case call_loss s2 new_inputs of
                   Inl e \<Rightarrow> (Inl e, s2)
                 | Inr loss \<Rightarrow>
                     (let s3 = s2\<lparr>loss_vars := loss\<rparr> in
                      (case call_metrics s3 new_inputs of
                         Inl e \<Rightarrow> (Inl e, s3)
                       | Inr ms \<Rightarrow> (Inr (), s3\<lparr>metric_vars := ms\<rparr>)))))))"

definition ProxyLayer_predict ::
  "('v, 'e, 'sf) ProxyLayer \<Rightarrow> 'v pyval list \<Rightarrow> ('e error + unit) \<times> ('v, 'e, 'sf) ProxyLayer" where
  "ProxyLayer_predict self inputs =
     (let s1 = self\<lparr>input_vars := PList inputs\<rparr> in
      case inner_layer s1 inputs of
        Inl e \<Rightarrow> (Inl e, s1)
      | Inr out \<Rightarrow> (Inr (), s1\<lparr>output_vars := out\<rparr>))"

text \<open>
  Attribute lookup and binding, for the function-valued attributes that
  \<^verbatim>\<open>ProgramHelper\<close> reads and writes. An instance entry wins over the class.
\<close>

definition ProxyLayer_methods :: "string list" where
  "ProxyLayer_methods =
     [''_train'', ''_eval'', ''_predict'', ''_prepare'', ''call_loss'', ''call_metrics'', ''set_mode'']"

definition getattr :: "('v, 'e, 'sf) ProxyLayer \<Rightarrow> string \<Rightarrow> 'e error + 'sf func" where
  "getattr obj name =
     (case attrs obj name of
        Some f \<Rightarrow> Inr f
      | None \<Rightarrow> if name \<in> set ProxyLayer_methods then Inr (BoundMethod name)
                else Inl (AttributeError name))"

definition setattr ::
  "('v, 'e, 'sf) ProxyLayer \<Rightarrow> string \<Rightarrow> 'sf func \<Rightarrow> ('v, 'e, 'sf) ProxyLayer" where
  "setattr obj name f = obj\<lparr>attrs := (attrs obj)(name \<mapsto> f)\<rparr>"

definition store_vars ::
  "('v, 'e, 'sf) ProxyLayer \<Rightarrow> 'v ProgramVars \<Rightarrow> ('v, 'e, 'sf) ProxyLayer" where
  "store_vars obj vs =
     obj\<lparr>input_vars := input_vars vs, label_vars := label_vars vs,
         output_vars := output_vars vs, loss_vars := loss_vars vs,
         metric_vars := metric_vars vs\<rparr>"

section \<open>BuildInfo\<close>

record BuildInfo =
  mode :: "string option"
  state :: bool

definition BuildInfo_init :: "string option \<Rightarrow> bool \<Rightarrow> BuildInfo" where
  "BuildInfo_init mode' state' = \<lparr>mode = mode', state = state'\<rparr>"

definition has_cache :: "BuildInfo \<Rightarrow> string option \<Rightarrow> bool" where
  "has_cache self mode' \<longleftrightarrow> BuildInfo.mode self = mode' \<and> state self = True"

section \<open>ProgramHelper\<close>

record ('v, 'e, 'sf, 'spec) ProgramHelper =
  proxy_layer :: "('v, 'e, 'sf) ProxyLayer"
  inputs_spec :: 'spec
  labels_spec :: 'spec
  build_info :: BuildInfo

text \<open>
  \<^verbatim>\<open>__init__\<close>. The logger handle is not part of the state; the messages a method
  hands to \<^verbatim>\<open>self._logger.info\<close> are returned next to its outcome.
\<close>

definition ProgramHelper_init ::
  "('v, 'e) callable \<Rightarrow> ('v, 'e) callable option \<Rightarrow> ('v, 'e) Metric list \<Rightarrow> 'spec \<Rightarrow> 'spec \<Rightarrow>
   ('v, 'e, 'sf, 'spec) ProgramHelper" where
  "ProgramHelper_init layer loss_func' metrics' inputs_spec' labels_spec' =
     \<lparr>proxy_layer = ProxyLayer_init layer loss_func' metrics',
      inputs_spec = inputs_spec',
      labels_spec = labels_spec',
      build_info = BuildInfo_init None False\<rparr>"

definition MODES :: "string option list" where
  "MODES = [Some ''train'', Some ''eval'', Some ''predict'']"

text \<open>\<^verbatim>\<open>'_' + mode\<close> and \<^verbatim>\<open>'...%s...' % mode\<close> on a mode that may be \<^verbatim>\<open>None\<close>.\<close>

definition str_add :: "string \<Rightarrow> string option \<Rightarrow> 'e error + string" where
  "str_add s mode' = (case mode' of None \<Rightarrow> Inl TypeError | Some m \<Rightarrow> Inr (s @ m))"

definition str_format :: "string option \<Rightarrow> string" where
  "str_format mode' = (case mode' of None \<Rightarrow> ''None'' | Some m \<Rightarrow> m)"

definition static_func :: "('v, 'e, 'sf, 'spec) ProgramHelper \<Rightarrow> 'e error + 'sf func" where
  "static_func self =
     (if ProxyLayer.mode (proxy_layer self) \<in> set MODES then
        (case str_add ''_'' (ProxyLayer.mode (proxy_layer self)) of
           Inl e \<Rightarrow> Inl e
         | Inr func_name \<Rightarrow> getattr (proxy_layer self) func_name)
      else Inl (AssertionError (Some ''Please call build_program(mode) firstly.'')))"

text \<open>
  \<^verbatim>\<open>build_program\<close>. The framework enters through two parameters:
  \<open>to_static\<close>, which wraps a function and an input specification into a static
  function object, and \<open>sf_concrete_program\<close>, the \<^verbatim>\<open>concrete_program\<close> property of
  such an object. Reading that property makes the framework trace the wrapped
  method on the proxy layer; the methods that can be wrapped assign the five
  variable lists and nothing else, so the property yields its value (or raises)
  together with the variable lists after tracing.
\<close>

definition build_program ::
  "('sf func \<Rightarrow> 'spec list \<Rightarrow> 'sf) \<Rightarrow>
   ('sf \<Rightarrow> ('v, 'e, 'sf) ProxyLayer \<Rightarrow> ('e error + 'cp) \<times> 'v ProgramVars) \<Rightarrow>
   string option \<Rightarrow> ('v, 'e, 'sf, 'spec) ProgramHelper \<Rightarrow>
   ('e error + unit) \<times> ('v, 'e, 'sf, 'spec) ProgramHelper \<times> string list" where
  "build_program to_static sf_concrete_program mode' self =
     (if mode' \<in> set MODES then
        if has_cache (build_info self) mode' then
          (Inr (), self,
           [''Already build program with mode = '' @ str_format mode' @ '', use cached program.''])
        else
          let log = [''start to build program for mode = '' @ str_format mode' @ ''.''];
              s1 = self\<lparr>proxy_layer := (proxy_layer self)\<lparr>ProxyLayer.mode := mode'\<rparr>\<rparr>;
              input_spec = (if mode' \<noteq> Some ''predict''
                            then [inputs_spec s1, labels_spec s1] else [inputs_spec s1])
          in case static_func s1 of
               Inl e \<Rightarrow> (Inl e, s1, log)
             | Inr f \<Rightarrow>
                 let static_func' = to_static f input_spec in
                 (case str_add ''_'' mode' of
                    Inl e \<Rightarrow> (Inl e, s1, log)
                  | Inr func_name \<Rightarrow>
                      let s2 = s1\<lparr>proxy_layer :=
                                 setattr (proxy_layer s1) func_name (StaticFunction static_func')\<rparr>
                      in (case getattr (proxy_layer s2) func_name of
                            Inl e \<Rightarrow> (Inl e, s2, log)
                          | Inr (BoundMethod n) \<Rightarrow> (Inl (AttributeError ''concrete_program''), s2, log)
                          | Inr (StaticFunction g) \<Rightarrow>
                              (case sf_concrete_program g (proxy_layer s2) of
                                 (Inl e, vs) \<Rightarrow>
                                   (Inl e, s2\<lparr>proxy_layer := store_vars (proxy_layer s2) vs\<rparr>, log)
                               | (Inr cp, vs) \<Rightarrow>
                                   (Inr (), s2\<lparr>proxy_layer := store_vars (proxy_layer s2) vs\<rparr>, log))))
      else (Inl (AssertionError None), self, []))"

text \<open>
  The properties \<^verbatim>\<open>concrete_program\<close>, \<^verbatim>\<open>main_program\<close> and
  \<^verbatim>\<open>startup_program\<close>. The last two read a field of the framework's concrete
  program, taken as the parameters \<open>cp_main_program\<close> and \<open>cp_startup_program\<close>.
\<close>

definition concrete_program ::
  "('sf \<Rightarrow> ('v, 'e, 'sf) ProxyLayer \<Rightarrow> ('e error + 'cp) \<times> 'v ProgramVars) \<Rightarrow>
   ('v, 'e, 'sf, 'spec) ProgramHelper \<Rightarrow> ('e error + 'cp) \<times> ('v, 'e, 'sf, 'spec) ProgramHelper" where
  "concrete_program sf_concrete_program self =
     (case static_func self of
        Inl e \<Rightarrow> (Inl e, self)
      | Inr (BoundMethod n) \<Rightarrow> (Inl (AttributeError ''concrete_program''), self)
      | Inr (StaticFunction g) \<Rightarrow>
          (case sf_concrete_program g (proxy_layer self) of
             (r, vs) \<Rightarrow> (r, self\<lparr>proxy_layer := store_vars (proxy_layer self) vs\<rparr>)))"

definition main_program ::
  "('sf \<Rightarrow> ('v, 'e, 'sf) ProxyLayer \<Rightarrow> ('e error + 'cp) \<times> 'v ProgramVars) \<Rightarrow> ('cp \<Rightarrow> 'prog) \<Rightarrow>
   ('v, 'e, 'sf, 'spec) ProgramHelper \<Rightarrow> ('e error + 'prog) \<times> ('v, 'e, 'sf, 'spec) ProgramHelper" where
  "main_program sf_concrete_program cp_main_program self =
     (case concrete_program sf_concrete_program self of
        (Inl e, s) \<Rightarrow> (Inl e, s)
      | (Inr cp, s) \<Rightarrow> (Inr (cp_main_program cp), s))"

definition startup_program ::
  "('sf \<Rightarrow> ('v, 'e, 'sf) ProxyLayer \<Rightarrow> ('e error + 'cp) \<times> 'v ProgramVars) \<Rightarrow> ('cp \<Rightarrow> 'prog) \<Rightarrow>
   ('v, 'e, 'sf, 'spec) ProgramHelper \<Rightarrow> ('e error + 'prog) \<times> ('v, 'e, 'sf, 'spec) ProgramHelper" where
  "startup_program sf_concrete_program cp_startup_program self =
     (case concrete_program sf_concrete_program self of
        (Inl e, s) \<Rightarrow> (Inl e, s)
      | (Inr cp, s) \<Rightarrow> (Inr (cp_startup_program cp), s))"

text \<open>
  The helper states a program can reach: the state \<^verbatim>\<open>__init__\<close> leaves, followed
  by calls of \<^verbatim>\<open>build_program\<close> (whatever their outcome) and reads of the
  \<^verbatim>\<open>concrete_program\<close> property, which \<^verbatim>\<open>main_program\<close> and
  \<^verbatim>\<open>startup_program\<close> go through.
\<close>

inductive reachable ::
  "('sf func \<Rightarrow> 'spec list \<Rightarrow> 'sf) \<Rightarrow>
   ('sf \<Rightarrow> ('v, 'e, 'sf) ProxyLayer \<Rightarrow> ('e error + 'cp) \<times> 'v ProgramVars) \<Rightarrow>
   ('v, 'e, 'sf, 'spec) ProgramHelper \<Rightarrow> bool"
  for to_static sf_concrete_program where
    reachable_init:
      "reachable to_static sf_concrete_program
         (ProgramHelper_init layer loss_func' metrics' inputs_spec' labels_spec')"
  | reachable_build:
      "reachable to_static sf_concrete_program s \<Longrightarrow>
       reachable to_static sf_concrete_program
         (fst (snd (build_program to_static sf_concrete_program mode' s)))"
  | reachable_read:
      "reachable to_static sf_concrete_program s \<Longrightarrow>
       reachable to_static sf_concrete_program
         (snd (concrete_program sf_concrete_program s))"

section \<open>A concrete instance\<close>

text \<open>
  A small instance on which the statements below are evaluated. The layer returns
  its arguments, the loss counts them, the metric keeps the first one. The static
  function objects are numbered by how often a method has been wrapped, and
  reading \<^verbatim>\<open>concrete_program\<close> succeeds and leaves the variable lists as they are.
\<close>

definition demo_layer :: "(nat, unit) callable" where
  "demo_layer xs = Inr (PList xs)"

definition demo_loss :: "(nat, unit) callable" where
  "demo_loss xs = Inr (PVar (length xs))"

definition demo_metric :: "(nat, unit) Metric" where
  "demo_metric = \<lparr>compute = (\<lambda>xs. Inr (take 1 xs))\<rparr>"

text \<open>An instance of \<^verbatim>\<open>to_list\<close>: \<^verbatim>\<open>None\<close> stays \<^verbatim>\<open>None\<close>, a list is kept, any other value is wrapped.\<close>

fun demo_to_list :: "nat pyval \<Rightarrow> nat pyval list option" where
  "demo_to_list PNone = None"
| "demo_to_list (PList xs) = Some xs"
| "demo_to_list (PVar v) = Some [PVar v]"

definition demo_to_static :: "nat func \<Rightarrow> string list \<Rightarrow> nat" where
  "demo_to_static f input_spec = (case f of BoundMethod n \<Rightarrow> 0 | StaticFunction k \<Rightarrow> Suc k)"

definition demo_concrete_program ::
  "nat \<Rightarrow> (nat, unit, nat) ProxyLayer \<Rightarrow> (unit error + nat) \<times> nat ProgramVars" where
  "demo_concrete_program g obj = (Inr g, ProgramVars.truncate obj)"

definition demo_helper :: "(nat, unit, nat, string) ProgramHelper" where
  "demo_helper = ProgramHelper_init demo_layer (Some demo_loss) [demo_metric] ''x'' ''y''"

definition demo_built :: "(nat, unit, nat, string) ProgramHelper" where
  "demo_built = fst (snd (build_program demo_to_static demo_concrete_program (Some ''train'') demo_helper))"

section \<open>Basic facts\<close>

lemmas demo_defs = demo_helper_def ProgramHelper_init_def ProxyLayer_init_def BuildInfo_init_def
  demo_to_static_def demo_concrete_program_def ProgramVars.truncate_def
  build_program_def MODES_def has_cache_def static_func_def str_add_def str_format_def
  getattr_def setattr_def store_vars_def ProxyLayer_methods_def Let_def

lemma getattr_mode_function:
  "Some name \<in> set MODES \<Longrightarrow> \<exists>f. getattr obj (''_'' @ name) = Inr f"
  by (auto simp: getattr_def MODES_def ProxyLayer_methods_def split: option.splits)

lemma getattr_mode_update:
  "getattr (obj\<lparr>ProxyLayer.mode := m\<rparr>) name = getattr obj name"
  by (simp add: getattr_def)

lemma getattr_store_vars: "getattr (store_vars obj vs) name = getattr obj name"
  by (simp add: getattr_def store_vars_def)

lemma mode_store_vars: "ProxyLayer.mode (store_vars obj vs) = ProxyLayer.mode obj"
  by (simp add: store_vars_def)

lemma mode_setattr: "ProxyLayer.mode (setattr obj name f) = ProxyLayer.mode obj"
  by (simp add: setattr_def)

lemma getattr_setattr: "getattr (setattr obj name f) name = Inr f"
  by (simp add: getattr_def setattr_def)

lemma static_func_valid:
  "ProxyLayer.mode (proxy_layer s) = Some name \<Longrightarrow> Some name \<in> set MODES \<Longrightarrow>
   static_func s = getattr (proxy_layer s) (''_'' @ name)"
  by (simp add: static_func_def str_add_def)

text \<open>Neither \<^verbatim>\<open>build_program\<close> nor a property read assigns \<^verbatim>\<open>build_info\<close>.\<close>

lemma build_program_build_info:
  "build_info (fst (snd (build_program to_static sf_concrete_program mode' s))) = build_info s"
  by (simp add: build_program_def Let_def split: sum.splits func.splits prod.splits)

lemma concrete_program_build_info:
  "build_info (snd (concrete_program sf_concrete_program s)) = build_info s"
  by (simp add: concrete_program_def split: sum.splits func.splits prod.splits)

lemma reachable_build_info:
  "reachable to_static sf_concrete_program s \<Longrightarrow> build_info s = BuildInfo_init None False"
  by (induction rule: reachable.induct)
     (simp_all add: ProgramHelper_init_def build_program_build_info concrete_program_build_info)

lemma reachable_no_cache:
  "reachable to_static sf_concrete_program s \<Longrightarrow> \<not> has_cache (build_info s) mode'"
  by (simp add: reachable_build_info has_cache_def BuildInfo_init_def)

lemma build_program_ok_valid:
  "fst (build_program to_static sf_concrete_program mode' s) = Inr () \<Longrightarrow> mode' \<in> set MODES"
  by (auto simp: build_program_def split: if_splits)

text \<open>
  The path of \<^verbatim>\<open>build_program\<close> for a valid mode without a cache hit, with every
  intermediate value named.
\<close>

lemma build_program_fresh:
  assumes valid: "Some name \<in> set MODES"
    and miss: "\<not> has_cache (build_info self) (Some name)"
    and f: "getattr (proxy_layer self) (''_'' @ name) = Inr f"
    and sf: "sf = to_static f (if name \<noteq> ''predict'' then [inputs_spec self, labels_spec self]
                               else [inputs_spec self])"
    and s2: "s2 = self\<lparr>proxy_layer := setattr ((proxy_layer self)\<lparr>ProxyLayer.mode := Some name\<rparr>)
                                         (''_'' @ name) (StaticFunction sf)\<rparr>"
    and traced: "sf_concrete_program sf (proxy_layer s2) = (r, vs)"
  shows "build_program to_static sf_concrete_program (Some name) self =
     ((case r of Inl e \<Rightarrow> Inl e | Inr cp \<Rightarrow> Inr ()),
      s2\<lparr>proxy_layer := store_vars (proxy_layer s2) vs\<rparr>,
      [''start to build program for mode = '' @ name @ ''.''])"
proof -
  let ?s1 = "self\<lparr>proxy_layer := (proxy_layer self)\<lparr>ProxyLayer.mode := Some name\<rparr>\<rparr>"
  have g: "static_func ?s1 = Inr f"
    using f valid by (simp add: static_func_valid getattr_mode_update)
  show ?thesis
  proof (cases "name = ''predict''")
    case True
    with traced valid miss g show ?thesis
      by (cases r)
         (simp_all add: s2 sf build_program_def Let_def str_add_def str_format_def getattr_setattr)
  next
    case False
    with traced valid miss g show ?thesis
      by (cases r)
         (simp_all add: s2 sf build_program_def Let_def str_add_def str_format_def getattr_setattr)
  qed
qed

lemma build_program_then_static_func:
  assumes valid: "mode' \<in> set MODES" and miss: "\<not> has_cache (build_info s) mode'"
  shows "\<exists>name f. mode' = Some name \<and>
     getattr (proxy_layer (fst (snd (build_program to_static sf_concrete_program mode' s))))
       (''_'' @ name) = Inr f \<and>
     static_func (fst (snd (build_program to_static sf_concrete_program mode' s))) = Inr f"
proof -
  from valid obtain name where name: "mode' = Some name"
    by (auto simp: MODES_def)
  with valid obtain f where f: "getattr (proxy_layer s) (''_'' @ name) = Inr f"
    using getattr_mode_function by blast
  define sf where "sf = to_static f (if name \<noteq> ''predict'' then [inputs_spec s, labels_spec s]
      else [inputs_spec s])"
  define s2 where "s2 = s\<lparr>proxy_layer :=
      setattr ((proxy_layer s)\<lparr>ProxyLayer.mode := Some name\<rparr>) (''_'' @ name) (StaticFunction sf)\<rparr>"
  obtain r vs where traced: "sf_concrete_program sf (proxy_layer s2) = (r, vs)"
    by (cases "sf_concrete_program sf (proxy_layer s2)")
  let ?s' = "s2\<lparr>proxy_layer := store_vars (proxy_layer s2) vs\<rparr>"
  have v: "Some name \<in> set MODES" and c: "\<not> has_cache (build_info s) (Some name)"
    using valid miss by (simp_all add: name)
  have run: "fst (snd (build_program to_static sf_concrete_program mode' s)) = ?s'"
    by (simp add: name build_program_fresh
        [where to_static = to_static and sf_concrete_program = sf_concrete_program,
          OF v c f sf_def s2_def traced])
  have m: "ProxyLayer.mode (proxy_layer ?s') = Some name"
    by (simp add: mode_store_vars s2_def mode_setattr)
  have g: "getattr (proxy_layer ?s') (''_'' @ name) = Inr (StaticFunction sf)"
    by (simp add: getattr_store_vars s2_def getattr_setattr)
  have "static_func ?s' = Inr (StaticFunction sf)"
    using static_func_valid [OF m] valid g by (simp add: name)
  with g name show ?thesis
    unfolding run by blast
qed

section \<open>The cache\<close>

text \<open>A cache hit returns at once: the state is untouched and only the message is logged.\<close>

lemma build_program_cache_hit:
  "mode' \<in> set MODES \<Longrightarrow> has_cache (build_info self) mode' \<Longrightarrow>
   build_program to_static sf_concrete_program mode' self =
     (Inr (), self,
      [''Already build program with mode = '' @ str_format mode' @ '', use cached program.''])"
  by (simp add: build_program_def)

text \<open>
  C1 says that a successful \<^verbatim>\<open>build_program(mode)\<close> populates the cache for that
  mode, so that the next call for the same mode finds \<^verbatim>\<open>has_cache(mode)\<close> true and
  returns early. The method never assigns \<^verbatim>\<open>build_info\<close>: on the helper that
  \<^verbatim>\<open>__init__\<close> leaves, the first \<^verbatim>\<open>build_program('train')\<close> succeeds and
  \<^verbatim>\<open>has_cache('train')\<close> is still false; the second call succeeds too, logs that it
  starts to build, and wraps the attribute \<^verbatim>\<open>_train\<close> once more.
\<close>

theorem build_program_twice_rebuilds:
  "fst (build_program demo_to_static demo_concrete_program (Some ''train'') demo_helper) = Inr () \<and>
   \<not> has_cache (build_info demo_built) (Some ''train'') \<and>
   fst (build_program demo_to_static demo_concrete_program (Some ''train'') demo_built) = Inr () \<and>
   snd (snd (build_program demo_to_static demo_concrete_program (Some ''train'') demo_built)) =
     [''start to build program for mode = train.''] \<and>
   attrs (proxy_layer demo_built) ''_train'' = Some (StaticFunction 0) \<and>
   attrs (proxy_layer (fst (snd (build_program demo_to_static demo_concrete_program
      (Some ''train'') demo_built)))) ''_train'' = Some (StaticFunction (Suc 0))"
  by (simp add: demo_built_def demo_defs)

text \<open>
  The same holds from every reachable state and for every mode: after
  \<^verbatim>\<open>build_program\<close> there is no cache entry.
\<close>

lemma build_program_never_caches:
  "reachable to_static sf_concrete_program s \<Longrightarrow>
   \<not> has_cache (build_info (fst (snd (build_program to_static sf_concrete_program mode' s)))) m"
  by (simp add: build_program_build_info reachable_no_cache)

text \<open>
  C3 says that the cache keeps a flag per mode: building the program for a second
  mode after a first one leaves \<^verbatim>\<open>has_cache\<close> of the first mode true. Since
  \<^verbatim>\<open>build_program\<close> never assigns \<^verbatim>\<open>build_info\<close>, there is nothing to keep: on
  the helper that \<^verbatim>\<open>__init__\<close> leaves, \<^verbatim>\<open>build_program('train')\<close> succeeds and
  \<^verbatim>\<open>has_cache('train')\<close> is false right after it; \<^verbatim>\<open>build_program('eval')\<close> then
  succeeds too, and afterwards \<^verbatim>\<open>has_cache\<close> is false for \<^verbatim>\<open>'train'\<close> and for
  \<^verbatim>\<open>'eval'\<close>.
\<close>

theorem build_train_then_eval_no_cache:
  "fst (build_program demo_to_static demo_concrete_program (Some ''train'') demo_helper) = Inr () \<and>
   \<not> has_cache (build_info demo_built) (Some ''train'') \<and>
   fst (build_program demo_to_static demo_concrete_program (Some ''eval'') demo_built) = Inr () \<and>
   \<not> has_cache (build_info (fst (snd (build_program demo_to_static demo_concrete_program
        (Some ''eval'') demo_built)))) (Some ''train'') \<and>
   \<not> has_cache (build_info (fst (snd (build_program demo_to_static demo_concrete_program
        (Some ''eval'') demo_built)))) (Some ''eval'')"
  by (simp add: demo_built_def demo_defs)

text \<open>
  What \<^verbatim>\<open>BuildInfo\<close> can record: \<^verbatim>\<open>has_cache(m)\<close> is true exactly when the stored
  mode is \<^verbatim>\<open>m\<close> and the stored state is \<^verbatim>\<open>True\<close>, hence for at most one mode at
  a time.
\<close>

lemma has_cache_iff:
  "has_cache b m \<longleftrightarrow> BuildInfo.mode b = m \<and> state b"
  by (simp add: has_cache_def)

lemma has_cache_single_mode:
  "has_cache b m1 \<Longrightarrow> has_cache b m2 \<Longrightarrow> m1 = m2"
  by (simp add: has_cache_iff)

section \<open>The method \<^verbatim>\<open>build_program\<close>\<close>

text \<open>
  C2: for every argument that is not one of \<^verbatim>\<open>'train'\<close>, \<^verbatim>\<open>'eval'\<close>,
  \<^verbatim>\<open>'predict'\<close> (another string or \<^verbatim>\<open>None\<close>), \<^verbatim>\<open>build_program\<close> raises
  \<^verbatim>\<open>AssertionError\<close>, leaves the whole helper state as it was and logs nothing.
\<close>

theorem build_program_invalid_mode:
  "mode' \<notin> set MODES \<Longrightarrow>
   build_program to_static sf_concrete_program mode' self = (Inl (AssertionError None), self, [])"
  by (simp add: build_program_def)

theorem build_program_invalid_mode_witness:
  "Some ''test'' \<notin> set MODES \<and>
   build_program demo_to_static demo_concrete_program (Some ''test'') demo_helper =
     (Inl (AssertionError None), demo_helper, [])"
  using build_program_invalid_mode [of "Some ''test''" demo_to_static demo_concrete_program demo_helper]
  by (simp add: MODES_def)

text \<open>
  C4: for a valid mode without a cache hit, \<^verbatim>\<open>build_program\<close> passes the current
  function of that mode to \<^verbatim>\<open>to_static\<close>, with the input specification
  \<^verbatim>\<open>[inputs_spec, labels_spec]\<close> for \<^verbatim>\<open>'train'\<close> and \<^verbatim>\<open>'eval'\<close> and
  \<^verbatim>\<open>[inputs_spec]\<close> for \<^verbatim>\<open>'predict'\<close>; afterwards \<^verbatim>\<open>proxy_layer.mode\<close> is the
  mode and the attribute \<^verbatim>\<open>'_' + mode\<close> is the static function that \<^verbatim>\<open>to_static\<close>
  returned. The call succeeds exactly when reading \<^verbatim>\<open>concrete_program\<close> of that
  static function does.
\<close>

theorem build_program_delegates:
  assumes "mode' \<in> set MODES" and "\<not> has_cache (build_info self) mode'"
  shows "\<exists>name f sf.
     mode' = Some name \<and>
     getattr (proxy_layer self) (''_'' @ name) = Inr f \<and>
     sf = to_static f (if mode' = Some ''train'' \<or> mode' = Some ''eval''
                       then [inputs_spec self, labels_spec self] else [inputs_spec self]) \<and>
     ProxyLayer.mode (proxy_layer (fst (snd (build_program to_static sf_concrete_program mode' self)))) = mode' \<and>
     getattr (proxy_layer (fst (snd (build_program to_static sf_concrete_program mode' self))))
       (''_'' @ name) = Inr (StaticFunction sf) \<and>
     fst (build_program to_static sf_concrete_program mode' self) =
       (case fst (sf_concrete_program sf
                   (setattr ((proxy_layer self)\<lparr>ProxyLayer.mode := mode'\<rparr>)
                            (''_'' @ name) (StaticFunction sf))) of
          Inl e \<Rightarrow> Inl e | Inr cp \<Rightarrow> Inr ())"
proof -
  from assms(1) obtain name where name: "mode' = Some name"
    by (auto simp: MODES_def)
  with assms(1) obtain f where f: "getattr (proxy_layer self) (''_'' @ name) = Inr f"
    using getattr_mode_function by blast
  define sf where "sf = to_static f (if mode' = Some ''train'' \<or> mode' = Some ''eval''
      then [inputs_spec self, labels_spec self] else [inputs_spec self])"
  define s2 where "s2 = self\<lparr>proxy_layer :=
      setattr ((proxy_layer self)\<lparr>ProxyLayer.mode := Some name\<rparr>) (''_'' @ name) (StaticFunction sf)\<rparr>"
  obtain r vs where traced: "sf_concrete_program sf (proxy_layer s2) = (r, vs)"
    by (cases "sf_concrete_program sf (proxy_layer s2)")
  have sf': "sf = to_static f (if name \<noteq> ''predict'' then [inputs_spec self, labels_spec self]
                               else [inputs_spec self])"
    using assms(1) name by (auto simp: sf_def MODES_def)
  have run: "build_program to_static sf_concrete_program mode' self =
     ((case r of Inl e \<Rightarrow> Inl e | Inr cp \<Rightarrow> Inr ()),
      s2\<lparr>proxy_layer := store_vars (proxy_layer s2) vs\<rparr>,
      [''start to build program for mode = '' @ name @ ''.''])"
    unfolding name using assms f sf' s2_def traced
    by (intro build_program_fresh) (simp_all add: name)
  have pl2: "proxy_layer s2 =
      setattr ((proxy_layer self)\<lparr>ProxyLayer.mode := mode'\<rparr>) (''_'' @ name) (StaticFunction sf)"
    by (simp add: s2_def name)
  have "ProxyLayer.mode (proxy_layer (fst (snd (build_program to_static sf_concrete_program mode' self)))) = mode'"
    by (simp add: run mode_store_vars pl2 mode_setattr)
  moreover have "getattr (proxy_layer (fst (snd (build_program to_static sf_concrete_program mode' self))))
       (''_'' @ name) = Inr (StaticFunction sf)"
    by (simp add: run getattr_store_vars pl2 getattr_setattr)
  moreover have "fst (build_program to_static sf_concrete_program mode' self) =
       (case fst (sf_concrete_program sf
                   (setattr ((proxy_layer self)\<lparr>ProxyLayer.mode := mode'\<rparr>)
                            (''_'' @ name) (StaticFunction sf))) of
          Inl e \<Rightarrow> Inl e | Inr cp \<Rightarrow> Inr ())"
    using traced by (simp add: run pl2)
  ultimately show ?thesis
    using name f sf_def by blast
qed

theorem build_program_delegates_witness:
  "Some ''eval'' \<in> set MODES \<and> \<not> has_cache (build_info demo_helper) (Some ''eval'') \<and>
   (\<exists>name f sf.
     Some ''eval'' = Some name \<and>
     getattr (proxy_layer demo_helper) (''_'' @ name) = Inr f \<and>
     sf = demo_to_static f [inputs_spec demo_helper, labels_spec demo_helper] \<and>
     ProxyLayer.mode (proxy_layer (fst (snd (build_program demo_to_static demo_concrete_program
        (Some ''eval'') demo_helper)))) = Some ''eval'' \<and>
     getattr (proxy_layer (fst (snd (build_program demo_to_static demo_concrete_program
        (Some ''eval'') demo_helper)))) (''_'' @ name) = Inr (StaticFunction sf))"
proof -
  have v: "Some ''eval'' \<in> set MODES" by (simp add: MODES_def)
  have m: "\<not> has_cache (build_info demo_helper) (Some ''eval'')"
    by (simp add: demo_helper_def ProgramHelper_init_def BuildInfo_init_def has_cache_def)
  from build_program_delegates [OF v m, of demo_to_static demo_concrete_program] v m
  show ?thesis by auto
qed

section \<open>The method \<^verbatim>\<open>static_func\<close> and the program properties\<close>

text \<open>
  C5: while \<^verbatim>\<open>proxy_layer.mode\<close> is not one of the three modes (as it is before any
  successful \<^verbatim>\<open>build_program\<close>), \<^verbatim>\<open>static_func()\<close> raises \<^verbatim>\<open>AssertionError\<close>
  with the message asking to call \<^verbatim>\<open>build_program(mode)\<close> first, and so do the
  properties \<^verbatim>\<open>concrete_program\<close>, \<^verbatim>\<open>main_program\<close> and \<^verbatim>\<open>startup_program\<close>,
  without changing the state. After a successful \<^verbatim>\<open>build_program(mode)\<close> on a
  reachable helper, \<^verbatim>\<open>static_func()\<close> returns the proxy layer's attribute
  \<^verbatim>\<open>'_' + mode\<close>.
\<close>

theorem static_func_guard:
  "(ProxyLayer.mode (proxy_layer s) \<notin> set MODES \<longrightarrow>
      static_func s = Inl (AssertionError (Some ''Please call build_program(mode) firstly.'')) \<and>
      concrete_program sf_concrete_program s =
        (Inl (AssertionError (Some ''Please call build_program(mode) firstly.'')), s) \<and>
      main_program sf_concrete_program cp_main_program s =
        (Inl (AssertionError (Some ''Please call build_program(mode) firstly.'')), s) \<and>
      startup_program sf_concrete_program cp_startup_program s =
        (Inl (AssertionError (Some ''Please call build_program(mode) firstly.'')), s)) \<and>
   (reachable to_static sf_concrete_program s \<longrightarrow>
    fst (build_program to_static sf_concrete_program mode' s) = Inr () \<longrightarrow>
      (\<exists>name f. mode' = Some name \<and>
         getattr (proxy_layer (fst (snd (build_program to_static sf_concrete_program mode' s))))
           (''_'' @ name) = Inr f \<and>
         static_func (fst (snd (build_program to_static sf_concrete_program mode' s))) = Inr f))"
proof (intro conjI impI)
  assume "ProxyLayer.mode (proxy_layer s) \<notin> set MODES"
  then show sf: "static_func s = Inl (AssertionError (Some ''Please call build_program(mode) firstly.''))"
    by (simp add: static_func_def)
  then show cp: "concrete_program sf_concrete_program s =
        (Inl (AssertionError (Some ''Please call build_program(mode) firstly.'')), s)"
    by (simp add: concrete_program_def)
  then show "main_program sf_concrete_program cp_main_program s =
        (Inl (AssertionError (Some ''Please call build_program(mode) firstly.'')), s)"
    by (simp add: main_program_def)
  from cp show "startup_program sf_concrete_program cp_startup_program s =
        (Inl (AssertionError (Some ''Please call build_program(mode) firstly.'')), s)"
    by (simp add: startup_program_def)
next
  assume "reachable to_static sf_concrete_program s"
    and "fst (build_program to_static sf_concrete_program mode' s) = Inr ()"
  then show "\<exists>name f. mode' = Some name \<and>
         getattr (proxy_layer (fst (snd (build_program to_static sf_concrete_program mode' s))))
           (''_'' @ name) = Inr f \<and>
         static_func (fst (snd (build_program to_static sf_concrete_program mode' s))) = Inr f"
    by (intro build_program_then_static_func build_program_ok_valid reachable_no_cache)
qed

theorem static_func_guard_witness:
  "ProxyLayer.mode (proxy_layer demo_helper) \<notin> set MODES \<and>
   static_func demo_helper = Inl (AssertionError (Some ''Please call build_program(mode) firstly.'')) \<and>
   fst (concrete_program demo_concrete_program demo_helper) =
     Inl (AssertionError (Some ''Please call build_program(mode) firstly.'')) \<and>
   fst (main_program demo_concrete_program Suc demo_helper) =
     Inl (AssertionError (Some ''Please call build_program(mode) firstly.'')) \<and>
   fst (startup_program demo_concrete_program Suc demo_helper) =
     Inl (AssertionError (Some ''Please call build_program(mode) firstly.'')) \<and>
   reachable demo_to_static demo_concrete_program demo_helper \<and>
   fst (build_program demo_to_static demo_concrete_program (Some ''train'') demo_helper) = Inr () \<and>
   static_func demo_built = Inr (StaticFunction 0) \<and>
   getattr (proxy_layer demo_built) ''_train'' = Inr (StaticFunction 0)"
proof -
  have a: "ProxyLayer.mode (proxy_layer demo_helper) \<notin> set MODES"
    by (simp add: demo_helper_def ProgramHelper_init_def ProxyLayer_init_def MODES_def)
  have b: "reachable demo_to_static demo_concrete_program demo_helper"
    unfolding demo_helper_def by (rule reachable_init)
  have c: "fst (build_program demo_to_static demo_concrete_program (Some ''train'') demo_helper) = Inr ()"
    by (simp add: demo_defs)
  have d: "getattr (proxy_layer demo_built) ''_train'' = Inr (StaticFunction 0)"
    by (simp add: demo_built_def demo_defs)
  from static_func_guard [of demo_helper demo_concrete_program Suc Suc demo_to_static "Some ''train''"]
    a b c d
  show ?thesis by (auto simp: demo_built_def)
qed

section \<open>Construction\<close>

text \<open>
  C6: \<^verbatim>\<open>ProgramHelper.__init__\<close> stores the layer, the loss function and the metrics
  unchanged in the proxy layer, whose mode is \<^verbatim>\<open>None\<close> and whose five variable
  lists are empty, and starts with no cache entry for any mode.
\<close>

theorem ProgramHelper_init_fields:
  "inner_layer (proxy_layer (ProgramHelper_init layer lf ms ispec lspec)) = layer \<and>
   loss_func (proxy_layer (ProgramHelper_init layer lf ms ispec lspec)) = lf \<and>
   metrics (proxy_layer (ProgramHelper_init layer lf ms ispec lspec)) = ms \<and>
   ProxyLayer.mode (proxy_layer (ProgramHelper_init layer lf ms ispec lspec)) = None \<and>
   input_vars (proxy_layer (ProgramHelper_init layer lf ms ispec lspec)) = PList [] \<and>
   label_vars (proxy_layer (ProgramHelper_init layer lf ms ispec lspec)) = PList [] \<and>
   output_vars (proxy_layer (ProgramHelper_init layer lf ms ispec lspec)) = PList [] \<and>
   loss_vars (proxy_layer (ProgramHelper_init layer lf ms ispec lspec)) = PList [] \<and>
   metric_vars (proxy_layer (ProgramHelper_init layer lf ms ispec lspec)) = PList [] \<and>
   (\<forall>m. \<not> has_cache (build_info (ProgramHelper_init layer lf ms ispec lspec)) m)"
  by (simp add: ProgramHelper_init_def ProxyLayer_init_def BuildInfo_init_def has_cache_def)

section \<open>ProxyLayer\<close>

lemma call_loss_frame:
  "call_loss (self\<lparr>input_vars := a, label_vars := b, output_vars := c\<rparr>) xs = call_loss self xs"
  by (simp add: call_loss_def)

lemma call_metrics_frame:
  "call_metrics (self\<lparr>input_vars := a, label_vars := b, output_vars := c, loss_vars := d\<rparr>) xs =
   call_metrics self xs"
  by (simp add: call_metrics_def)

text \<open>
  C8: \<^verbatim>\<open>_train\<close> and \<^verbatim>\<open>_eval\<close> are equivalent. On every proxy layer and every
  pair of inputs and labels they end with the same outcome and the same state, also
  when a step raises; and when no step raises that state is the one obtained by
  saving the inputs and the labels, calling the inner layer, and storing what
  \<^verbatim>\<open>call_loss\<close> and \<^verbatim>\<open>call_metrics\<close> return on the prepared outputs and labels.
\<close>

theorem train_eval_equivalent:
  fixes self :: "('v, 'e, 'sf) ProxyLayer"
  shows "ProxyLayer_train to_list self inputs labels = ProxyLayer_eval to_list self inputs labels \<and>
   (\<forall>out new_inputs loss ms.
      inner_layer self inputs = Inr out \<longrightarrow>
      ProxyLayer_prepare to_list out labels = (Inr new_inputs :: 'e error + 'v pyval list) \<longrightarrow>
      call_loss self new_inputs = Inr loss \<longrightarrow>
      call_metrics self new_inputs = Inr ms \<longrightarrow>
      ProxyLayer_eval to_list self inputs labels =
        (Inr (), self\<lparr>input_vars := PList inputs, label_vars := labels, output_vars := out,
                        loss_vars := loss, metric_vars := ms\<rparr>))"
proof (intro conjI allI impI)
  show "ProxyLayer_train to_list self inputs labels = ProxyLayer_eval to_list self inputs labels"
    by (simp add: ProxyLayer_train_def ProxyLayer_eval_def)
next
  fix out new_inputs loss ms
  assume "inner_layer self inputs = Inr out"
    and "ProxyLayer_prepare to_list out labels = (Inr new_inputs :: 'e error + 'v pyval list)"
    and "call_loss self new_inputs = Inr loss"
    and "call_metrics self new_inputs = Inr ms"
  then show "ProxyLayer_eval to_list self inputs labels =
        (Inr (), self\<lparr>input_vars := PList inputs, label_vars := labels, output_vars := out,
                        loss_vars := loss, metric_vars := ms\<rparr>)"
    by (simp add: ProxyLayer_eval_def Let_def call_loss_frame call_metrics_frame)
qed

theorem train_eval_equivalent_witness:
  "inner_layer (proxy_layer demo_helper) [PVar 1] = Inr (PList [PVar 1]) \<and>
   ProxyLayer_prepare demo_to_list (PList [PVar 1]) (PList [PVar 2]) =
     (Inr [PVar 1, PVar 2] :: unit error + nat pyval list) \<and>
   call_loss (proxy_layer demo_helper) [PVar 1, PVar 2] = Inr (PVar 2) \<and>
   call_metrics (proxy_layer demo_helper) [PVar 1, PVar 2] = Inr (PList [PVar 1]) \<and>
   ProxyLayer_train demo_to_list (proxy_layer demo_helper) [PVar 1] (PList [PVar 2]) =
     (Inr (), (proxy_layer demo_helper)\<lparr>input_vars := PList [PVar 1], label_vars := PList [PVar 2],
        output_vars := PList [PVar 1], loss_vars := PVar 2, metric_vars := PList [PVar 1]\<rparr>) \<and>
   ProxyLayer_eval demo_to_list (proxy_layer demo_helper) [PVar 1] (PList [PVar 2]) =
     (Inr (), (proxy_layer demo_helper)\<lparr>input_vars := PList [PVar 1], label_vars := PList [PVar 2],
        output_vars := PList [PVar 1], loss_vars := PVar 2, metric_vars := PList [PVar 1]\<rparr>)"
proof -
  let ?pl = "proxy_layer demo_helper"
  have a: "inner_layer ?pl [PVar 1] = Inr (PList [PVar 1])"
    by (simp add: demo_helper_def ProgramHelper_init_def ProxyLayer_init_def demo_layer_def)
  have b: "ProxyLayer_prepare demo_to_list (PList [PVar 1]) (PList [PVar 2]) =
     (Inr [PVar 1, PVar 2] :: unit error + nat pyval list)"
    by (simp add: ProxyLayer_prepare_def)
  have c: "call_loss ?pl [PVar 1, PVar 2] = Inr (PVar 2)"
    by (simp add: call_loss_def demo_helper_def ProgramHelper_init_def ProxyLayer_init_def
        demo_loss_def)
  have d: "call_metrics ?pl [PVar 1, PVar 2] = Inr (PList [PVar 1])"
    by (simp add: call_metrics_def demo_helper_def ProgramHelper_init_def ProxyLayer_init_def
        demo_metric_def)
  note t = train_eval_equivalent [of demo_to_list ?pl "[PVar 1]" "PList [PVar 2]"]
  from t a b c d have e: "ProxyLayer_eval demo_to_list ?pl [PVar 1] (PList [PVar 2]) =
     (Inr (), ?pl\<lparr>input_vars := PList [PVar 1], label_vars := PList [PVar 2],
        output_vars := PList [PVar 1], loss_vars := PVar 2, metric_vars := PList [PVar 1]\<rparr>)"
    by blast
  from t have "ProxyLayer_train demo_to_list ?pl [PVar 1] (PList [PVar 2]) =
      ProxyLayer_eval demo_to_list ?pl [PVar 1] (PList [PVar 2])"
    by blast
  with e have f: "ProxyLayer_train demo_to_list ?pl [PVar 1] (PList [PVar 2]) =
     (Inr (), ?pl\<lparr>input_vars := PList [PVar 1], label_vars := PList [PVar 2],
        output_vars := PList [PVar 1], loss_vars := PVar 2, metric_vars := PList [PVar 1]\<rparr>)"
    by (rule trans [rotated])
  from a b c d e f show ?thesis
    by blast
qed

lemma predict_writes:
  "\<exists>iv ov. snd (ProxyLayer_predict self inputs) = self\<lparr>input_vars := iv, output_vars := ov\<rparr>"
proof (cases "inner_layer self inputs")
  case (Inl e)
  then have "snd (ProxyLayer_predict self inputs) =
      self\<lparr>input_vars := PList inputs, output_vars := output_vars self\<rparr>"
    by (simp add: ProxyLayer_predict_def)
  then show ?thesis by blast
next
  case (Inr out)
  then have "snd (ProxyLayer_predict self inputs) =
      self\<lparr>input_vars := PList inputs, output_vars := out\<rparr>"
    by (simp add: ProxyLayer_predict_def)
  then show ?thesis by blast
qed

lemma predict_ignores_loss_metrics:
  "ProxyLayer_predict (self\<lparr>loss_func := lf, metrics := ms\<rparr>) inputs =
     (fst (ProxyLayer_predict self inputs),
      (snd (ProxyLayer_predict self inputs))\<lparr>loss_func := lf, metrics := ms\<rparr>)"
  by (simp add: ProxyLayer_predict_def Let_def split: sum.splits)

text \<open>
  C9: \<^verbatim>\<open>_predict\<close> assigns \<^verbatim>\<open>input_vars\<close> and \<^verbatim>\<open>output_vars\<close> only. The label,
  loss and metric variables, the loss function, the metrics and the mode are as
  before, and neither the loss function nor a metric is called: replacing them
  changes nothing in the outcome or in the variables written.
\<close>

theorem predict_frame:
  "label_vars (snd (ProxyLayer_predict self inputs)) = label_vars self \<and>
   loss_vars (snd (ProxyLayer_predict self inputs)) = loss_vars self \<and>
   metric_vars (snd (ProxyLayer_predict self inputs)) = metric_vars self \<and>
   loss_func (snd (ProxyLayer_predict self inputs)) = loss_func self \<and>
   metrics (snd (ProxyLayer_predict self inputs)) = metrics self \<and>
   ProxyLayer.mode (snd (ProxyLayer_predict self inputs)) = ProxyLayer.mode self \<and>
   (\<exists>iv ov. snd (ProxyLayer_predict self inputs) = self\<lparr>input_vars := iv, output_vars := ov\<rparr>) \<and>
   (\<forall>lf ms. ProxyLayer_predict (self\<lparr>loss_func := lf, metrics := ms\<rparr>) inputs =
       (fst (ProxyLayer_predict self inputs),
        (snd (ProxyLayer_predict self inputs))\<lparr>loss_func := lf, metrics := ms\<rparr>))"
proof -
  obtain iv ov where w:
    "snd (ProxyLayer_predict self inputs) = self\<lparr>input_vars := iv, output_vars := ov\<rparr>"
    using predict_writes by blast
  have kept: "label_vars (snd (ProxyLayer_predict self inputs)) = label_vars self"
    "loss_vars (snd (ProxyLayer_predict self inputs)) = loss_vars self"
    "metric_vars (snd (ProxyLayer_predict self inputs)) = metric_vars self"
    "loss_func (snd (ProxyLayer_predict self inputs)) = loss_func self"
    "metrics (snd (ProxyLayer_predict self inputs)) = metrics self"
    "ProxyLayer.mode (snd (ProxyLayer_predict self inputs)) = ProxyLayer.mode self"
    by (simp_all add: w)
  from kept predict_writes [of self inputs] predict_ignores_loss_metrics
  show ?thesis by blast
qed

lemma call_metrics_loop_concat:
  "map (\<lambda>m. compute m inputs) ms = map Inr rs \<Longrightarrow>
   call_metrics_loop ms inputs outs = Inr (outs @ concat rs)"
proof (induction ms arbitrary: outs rs)
  case Nil
  then show ?case by simp
next
  case (Cons m ms)
  then obtain r rs' where rs: "rs = r # rs'" and m: "compute m inputs = Inr r"
    and rest: "map (\<lambda>m. compute m inputs) ms = map Inr rs'"
    by (cases rs) auto
  from Cons.IH [OF rest] show ?case by (simp add: rs m)
qed

text \<open>
  C10: \<^verbatim>\<open>call_loss\<close> returns the empty list when there is no loss function and
  otherwise what the loss function returns on the inputs; \<^verbatim>\<open>call_metrics\<close> returns
  the concatenation, in the order of the metrics list, of what each metric's
  \<^verbatim>\<open>compute\<close> returns on the inputs, and the empty list when there are no
  metrics.
\<close>

theorem call_loss_call_metrics:
  "(loss_func self = None \<longrightarrow> call_loss self inputs = Inr (PList [])) \<and>
   (\<forall>f. loss_func self = Some f \<longrightarrow> call_loss self inputs = f inputs) \<and>
   (\<forall>rs. map (\<lambda>m. compute m inputs) (metrics self) = map Inr rs \<longrightarrow>
         call_metrics self inputs = Inr (PList (concat rs))) \<and>
   (metrics self = [] \<longrightarrow> call_metrics self inputs = Inr (PList []))"
  by (simp add: call_loss_def call_metrics_def call_metrics_loop_concat)

theorem call_loss_call_metrics_witness:
  "loss_func (proxy_layer demo_helper) = Some demo_loss \<and>
   call_loss (proxy_layer demo_helper) [PVar 1, PVar 2] = Inr (PVar 2) \<and>
   map (\<lambda>m. compute m [PVar 1, PVar 2]) (metrics (proxy_layer demo_helper)) = map Inr [[PVar 1]] \<and>
   call_metrics (proxy_layer demo_helper) [PVar 1, PVar 2] = Inr (PList [PVar 1]) \<and>
   loss_func (ProxyLayer_init demo_layer None [] :: (nat, unit, nat) ProxyLayer) = None \<and>
   metrics (ProxyLayer_init demo_layer None [] :: (nat, unit, nat) ProxyLayer) = [] \<and>
   call_loss (ProxyLayer_init demo_layer None [] :: (nat, unit, nat) ProxyLayer) [PVar 1] =
     Inr (PList []) \<and>
   call_metrics (ProxyLayer_init demo_layer None [] :: (nat, unit, nat) ProxyLayer) [PVar 1] =
     Inr (PList [])"
proof -
  let ?full = "proxy_layer demo_helper"
  let ?bare = "ProxyLayer_init demo_layer None [] :: (nat, unit, nat) ProxyLayer"
  have a: "loss_func ?full = Some demo_loss"
    by (simp add: demo_helper_def ProgramHelper_init_def ProxyLayer_init_def)
  have b: "map (\<lambda>m. compute m [PVar 1, PVar 2]) (metrics ?full) = map Inr [[PVar 1]]"
    by (simp add: demo_helper_def ProgramHelper_init_def ProxyLayer_init_def demo_metric_def)
  have c: "loss_func ?bare = None" "metrics ?bare = []"
    by (simp_all add: ProxyLayer_init_def)
  note full = call_loss_call_metrics [of ?full "[PVar 1, PVar 2]"]
  note bare = call_loss_call_metrics [of ?bare "[PVar 1]"]
  from full a have "call_loss ?full [PVar 1, PVar 2] = demo_loss [PVar 1, PVar 2]"
    by blast
  then have l: "call_loss ?full [PVar 1, PVar 2] = Inr (PVar 2)"
    by (simp add: demo_loss_def)
  from full b have "call_metrics ?full [PVar 1, PVar 2] = Inr (PList (concat [[PVar 1]]))"
    by blast
  then have m: "call_metrics ?full [PVar 1, PVar 2] = Inr (PList [PVar 1])"
    by simp
  from bare c have n: "call_loss ?bare [PVar 1] = Inr (PList [])"
    "call_metrics ?bare [PVar 1] = Inr (PList [])"
    by blast+
  from a b c l m n show ?thesis
    by blast
qed

end
